theory Spec2Isabelle
  imports Main "HOL-Library.Char_ord" "HOL-Library.List_Lexorder" "HOL-Library.Multiset"
begin

section \<open>Generic views of mayan/apps/common/generics.py\<close>

text \<open>
  The module defines view classes on top of a web framework. The methods defined in the
  module are embedded below, each under the name it has in the source. Everything a
  method calls that lives outside the module (the framework's view classes, the mixins,
  forms, the object-relational mapper, the settings) is a parameter of the embedding:
  a field of an environment record, so that every theorem holds for whatever these
  callees do.

  Text is a \<open>string\<close>, read as the UTF-8 bytes of the Python text: the order of
  \<open>HOL-Library.List_Lexorder\<close> on byte lists is then the code-point order Python compares
  text by.
\<close>

subsection \<open>Exceptions, messages, responses\<close>

text \<open>
  The exceptions the module names, and \<open>Exception\<close> for every other instance of Python's
  class \<open>Exception\<close> (what the module's \<open>except Exception\<close> clauses match).
\<close>

datatype exn =
    ImproperlyConfigured string
  | ValidationError "string list"
  | AttributeError string
  | KeyError string
  | ValueError string
  | TypeError string
  | FieldError string
  | NotImplementedError
  | Exception string

text \<open>
  A flashed message is a level and a text. The texts of the module are lazy translations
  applied to arguments with \<open>%\<close>: they are kept as the message id and its arguments, so
  that neither the active translation nor the rendering of an exception is fixed here.
  An argument is a text, an exception, a pair of texts or a list of such pairs (the
  last two are what \<open>%s\<close> is given when \<open>AssignRemoveView\<close> finds a group where it looks
  for a label).
\<close>

datatype level = ERROR | SUCCESS

datatype fmt_arg =
    Text string
  | Raised exn
  | Item "string \<times> string"
  | Items "(string \<times> string) list"

datatype msg_text =
    Plain string
  | Format string "(string \<times> fmt_arg) list"   \<comment> \<open>\<open>_(msgid) % {name: value, ...}\<close>\<close>
  | Format1 string fmt_arg                      \<comment> \<open>\<open>_(msgid) % value\<close>\<close>

type_synonym message = "level \<times> msg_text"

text \<open>
  A response is either the redirect the module builds itself or a response handed back
  by an inherited method (a rendered template, a download).
\<close>

datatype 'r response = HttpResponseRedirect string | Inherited 'r

subsection \<open>Statements with state and exceptions\<close>

text \<open>
  A statement runs on a state and gives the state it leaves and either a value or the
  exception it raised.
\<close>

type_synonym ('s, 'a) stmt = "'s \<Rightarrow> (exn + 'a) \<times> 's"

definition ret :: "'a \<Rightarrow> ('s, 'a) stmt" where
  "ret x = (\<lambda>s. (Inr x, s))"

definition raise :: "exn \<Rightarrow> ('s, 'a) stmt" where
  "raise e = (\<lambda>s. (Inl e, s))"

definition bnd :: "('s, 'a) stmt \<Rightarrow> ('a \<Rightarrow> ('s, 'b) stmt) \<Rightarrow> ('s, 'b) stmt" where
  "bnd m f = (\<lambda>s. case m s of (Inl e, s') \<Rightarrow> (Inl e, s') | (Inr x, s') \<Rightarrow> f x s')"

definition reading :: "('s \<Rightarrow> exn + 'a) \<Rightarrow> ('s, 'a) stmt" where
  \<comment> \<open>a call that reads the state and leaves it as it is\<close>
  "reading r = (\<lambda>s. (r s, s))"

definition modify :: "('s \<Rightarrow> 's) \<Rightarrow> ('s, unit) stmt" where
  "modify f = (\<lambda>s. (Inr (), f s))"

definition try_except :: "('s, 'a) stmt \<Rightarrow> (exn \<Rightarrow> ('s, 'a) stmt) \<Rightarrow> ('s, 'a) stmt" where
  \<comment> \<open>\<open>try: m  except Exception as e: h e\<close>; a handler re-raises what it does not catch\<close>
  "try_except m h = (\<lambda>s. case m s of (Inl e, s') \<Rightarrow> h e s' | (Inr x, s') \<Rightarrow> (Inr x, s'))"

subsection \<open>AssignRemoveView.generate_choices\<close>

text \<open>
  \<open>'%s' % pk\<close>: a primary key is an integer, a text (a UUID, a slug) or \<open>None\<close> on an
  instance that was never saved.
\<close>

datatype pk_value = IntPk int | TextPk string | NoPk

definition digit_char :: "nat \<Rightarrow> char" where
  "digit_char d = ''0123456789'' ! d"

function decimal :: "nat \<Rightarrow> string" where
  "decimal n = (if n < 10 then [digit_char n] else decimal (n div 10) @ [digit_char (n mod 10)])"
  by pat_completeness auto
termination
  by (relation "measure (\<lambda>n. n)") auto

declare decimal.simps [simp del]

definition str_int :: "int \<Rightarrow> string" where
  "str_int i = (if i < 0 then ''-'' @ decimal (nat (- i)) else decimal (nat i))"

fun str_pk :: "pk_value \<Rightarrow> string" where
  "str_pk (IntPk i) = str_int i"
| "str_pk (TextPk t) = t"
| "str_pk NoPk = ''None''"

text \<open>
  A model instance, as far as \<open>generate_choices\<close> looks at it: the \<open>model\<close> field of its
  content type (\<open>ContentType.objects.get_for_model\<close>), its \<open>pk\<close> and its \<open>force_text\<close>.
\<close>

record model_instance =
  ct_model :: string
  pk :: pk_value
  force_text :: string

definition choice_pair :: "model_instance \<Rightarrow> string \<times> string" where
  \<comment> \<open>the pair appended in one round of the loop\<close>
  "choice_pair choice = (ct_model choice @ '','' @ str_pk (pk choice), force_text choice)"

definition generate_choices :: "model_instance list \<Rightarrow> (string \<times> string) list" where
  \<comment> \<open>\<open>sorted(results, key=lambda x: x[1])\<close> is a stable sort, as \<open>sort_key\<close> is\<close>
  "generate_choices choices = sort_key (\<lambda>x. snd x) (map choice_pair choices)"

subsection \<open>SingleObjectListView.get_paginate_by\<close>

text \<open>
  \<open>setting_paginate_by\<close> is the setting object the module imports; the view (with its
  request and its attributes) and the queryset may be anything.
\<close>

record setting =
  setting_value :: int

definition get_paginate_by :: "setting \<Rightarrow> 'self \<Rightarrow> 'q \<Rightarrow> int" where
  "get_paginate_by setting_paginate_by self queryset = setting_value setting_paginate_by"

subsection \<open>The view and its request\<close>

text \<open>
  \<open>request.GET\<close> and \<open>request.POST\<close> are multi-valued dictionaries; \<open>get\<close> gives the
  last value of a key, and \<open>None\<close> for a key that is absent or has no value.
\<close>

type_synonym querydict = "string \<rightharpoonup> string list"

definition querydict_get :: "querydict \<Rightarrow> string \<Rightarrow> string option" where
  "querydict_get d key =
     (case d key of None \<Rightarrow> None | Some vs \<Rightarrow> (if vs = [] then None else Some (last vs)))"

record 'u request =
  request_method :: string
  GET :: querydict
  POST :: querydict
  FILES :: 'u

text \<open>
  The state a method of a view runs on: the attributes the module assigns
  (\<open>self.queryset\<close>, \<open>self.field_name\<close>, \<open>self.object\<close>), the messages flashed on the
  request, and \<open>world\<close> for everything else that a callee may read or change (the
  database above all).
\<close>

record ('w, 'q, 'o) view =
  world :: 'w
  flashed :: "message list"
  queryset :: "'q option"
  field_name :: "string option"
  object :: "'o option"

definition messages_error :: "msg_text \<Rightarrow> (('w, 'q, 'o) view, unit) stmt" where
  \<comment> \<open>\<open>messages.error\<close>: one more message on the request\<close>
  "messages_error message = modify (\<lambda>s. s\<lparr>flashed := flashed s @ [(ERROR, message)]\<rparr>)"

definition messages_success :: "msg_text \<Rightarrow> (('w, 'q, 'o) view, unit) stmt" where
  "messages_success message = modify (\<lambda>s. s\<lparr>flashed := flashed s @ [(SUCCESS, message)]\<rparr>)"

subsection \<open>The guarded views: \<open>__init__\<close>\<close>

text \<open>
  Seven classes of the module guard \<open>get_queryset\<close>. Their \<open>__init__\<close> and (the list view
  apart) their \<open>get_queryset\<close> are the same text with the class's own name in it.
\<close>

datatype guarded_view =
    MultipleObjectDownloadView
  | SingleObjectDownloadView
  | MultipleObjectFormActionView
  | MultipleObjectConfirmActionView
  | SingleObjectDeleteView
  | SingleObjectDetailView
  | SingleObjectListView

text \<open>
  A class is its \<open>__name__\<close>, its own \<open>__dict__\<close> and the classes that follow it in its
  method resolution order; \<open>'m\<close> is the type of function objects. Looking an attribute up
  on a class gives the entry of the first class of the order that has one.
\<close>

record 'm class_body =
  class_name :: string
  class_dict :: "string \<rightharpoonup> 'm"

record 'm pyclass =
  body :: "'m class_body"
  ancestors :: "'m class_body list"

definition mro :: "'m pyclass \<Rightarrow> 'm class_body list" where
  "mro cls = body cls # ancestors cls"

fun lookup_mro :: "'m class_body list \<Rightarrow> string \<Rightarrow> 'm option" where
  "lookup_mro [] name = None"
| "lookup_mro (c # cs) name =
     (case class_dict c name of Some f \<Rightarrow> Some f | None \<Rightarrow> lookup_mro cs name)"

definition class_getattr :: "'m pyclass \<Rightarrow> string \<Rightarrow> ('s, 'm) stmt" where
  "class_getattr cls name =
     (case lookup_mro (mro cls) name of
        None \<Rightarrow> raise (AttributeError name)
      | Some f \<Rightarrow> ret f)"

definition overloading_message :: "string \<Rightarrow> string" where
  "overloading_message cls =
     cls @ '' is overloading the get_queryset method. Subclasses ''
         @ ''should implement the get_source_queryset method instead. ''"

definition view_init ::
  "'m pyclass \<Rightarrow> 'm pyclass \<Rightarrow> ('s, unit) stmt \<Rightarrow> ('s, unit) stmt" where
  \<comment> \<open>\<open>guarded\<close> is the class whose \<open>__init__\<close> this is, \<open>self_class\<close> is \<open>self.__class__\<close>,
      \<open>super_init\<close> is \<open>super(guarded, self).__init__(*args, **kwargs)\<close>\<close>
  "view_init guarded self_class super_init =
     bnd super_init (\<lambda>result.
     bnd (class_getattr self_class ''get_queryset'') (\<lambda>own.
     bnd (class_getattr guarded ''get_queryset'') (\<lambda>base.
       if own \<noteq> base
       then raise (ImproperlyConfigured (overloading_message (class_name (body self_class))))
       else ret result)))"

subsection \<open>The guarded views: \<open>get_queryset\<close>\<close>

text \<open>
  What \<open>get_queryset\<close> reaches outside the module: the next \<open>get_queryset\<close> of the method
  resolution order and \<open>get_source_queryset\<close> (both read the view), \<open>order_by\<close> of the
  queryset, and the three constants of \<open>literals\<close>. \<open>order_by\<close> is called with a text
  that comes from the query string as it is: it gives the ordered queryset or raises
  (a field it refuses, an object that is no queryset).
\<close>

record ('s, 'q) queryset_env =
  super_get_queryset :: "'s \<Rightarrow> exn + 'q"
  get_source_queryset :: "'s \<Rightarrow> exn + 'q"
  order_by :: "string \<Rightarrow> 'q \<Rightarrow> exn + 'q"
  TEXT_SORT_FIELD_PARAMETER :: string
  TEXT_SORT_ORDER_PARAMETER :: string
  TEXT_SORT_ORDER_CHOICE_ASCENDING :: string

definition lookup_queryset ::
  "(('w, 'q, 'o) view, 'q) queryset_env \<Rightarrow> (('w, 'q, 'o) view, 'q) stmt" where
  \<comment> \<open>the \<open>try\<close> statement that opens all seven \<open>get_queryset\<close>\<close>
  "lookup_queryset env =
     try_except (reading (super_get_queryset env))
       (\<lambda>e. case e of
          ImproperlyConfigured _ \<Rightarrow>
            bnd (reading (get_source_queryset env)) (\<lambda>source.
            bnd (modify (\<lambda>s. s\<lparr>queryset := Some source\<rparr>)) (\<lambda>_.
            reading (super_get_queryset env)))
        | _ \<Rightarrow> raise e)"

definition get_sort_field :: "('s, 'q) queryset_env \<Rightarrow> 'u request \<Rightarrow> string option" where
  "get_sort_field env request = querydict_get (GET request) (TEXT_SORT_FIELD_PARAMETER env)"

definition get_sort_order :: "('s, 'q) queryset_env \<Rightarrow> 'u request \<Rightarrow> string option" where
  "get_sort_order env request = querydict_get (GET request) (TEXT_SORT_ORDER_PARAMETER env)"

definition sort_queryset ::
  "(('w, 'q, 'o) view, 'q) queryset_env \<Rightarrow> 'u request \<Rightarrow> 'q \<Rightarrow> (('w, 'q, 'o) view, 'q) stmt" where
  \<comment> \<open>what the list view's \<open>get_queryset\<close> does after its \<open>try\<close> statement;
      \<open>if self.field_name:\<close> holds for a text that is neither \<open>None\<close> nor empty\<close>
  "sort_queryset env request = (\<lambda>queryset.
     bnd (modify (\<lambda>s. s\<lparr>field_name := get_sort_field env request\<rparr>)) (\<lambda>_.
     (\<lambda>s.
       let sort_order =
             (if get_sort_order env request = Some (TEXT_SORT_ORDER_CHOICE_ASCENDING env)
              then '''' else ''-'')
       in case field_name s of
            None \<Rightarrow> ret queryset s
          | Some name \<Rightarrow>
              if name \<noteq> []
              then reading (\<lambda>_. order_by env (sort_order @ name) queryset) s
              else ret queryset s)))"

definition list_get_queryset ::
  "(('w, 'q, 'o) view, 'q) queryset_env \<Rightarrow> 'u request \<Rightarrow> (('w, 'q, 'o) view, 'q) stmt" where
  \<comment> \<open>\<open>SingleObjectListView.get_queryset\<close>\<close>
  "list_get_queryset env request =
     bnd (lookup_queryset env) (\<lambda>queryset. sort_queryset env request queryset)"

fun get_queryset ::
  "guarded_view \<Rightarrow> (('w, 'q, 'o) view, 'q) queryset_env \<Rightarrow> 'u request
     \<Rightarrow> (('w, 'q, 'o) view, 'q) stmt" where
  "get_queryset MultipleObjectDownloadView env request = lookup_queryset env"
| "get_queryset SingleObjectDownloadView env request = lookup_queryset env"
| "get_queryset MultipleObjectFormActionView env request = lookup_queryset env"
| "get_queryset MultipleObjectConfirmActionView env request = lookup_queryset env"
| "get_queryset SingleObjectDeleteView env request = lookup_queryset env"
| "get_queryset SingleObjectDetailView env request = lookup_queryset env"
| "get_queryset SingleObjectListView env request = list_get_queryset env request"

subsection \<open>SingleObjectCreateView, SingleObjectEditView, SingleObjectDeleteView\<close>


definition try_except_else ::
  "('s, 'a) stmt \<Rightarrow> (exn \<Rightarrow> ('s, 'b) stmt) \<Rightarrow> ('a \<Rightarrow> ('s, 'b) stmt) \<Rightarrow> ('s, 'b) stmt" where
  \<comment> \<open>\<open>try: m  except Exception as e: h e  else: k\<close>, with what follows the statement in \<open>k\<close>\<close>
  "try_except_else m h k = (\<lambda>s. case m s of (Inl e, s') \<Rightarrow> h e s' | (Inr x, s') \<Rightarrow> k x s')"









subsection \<open>MultiFormView\<close>

text \<open>
  A dictionary that the view iterates over (\<open>form_classes\<close>, \<open>forms\<close>) is the list of its
  items in iteration order. \<open>hasattr(self, name)\<close> is a lookup in the table of the
  attributes of the matching kind: \<open>create_form_methods\<close>, \<open>initial_methods\<close> and
  \<open>form_valid_methods\<close> map the full attribute name to the method. \<open>all_forms_valid\<close> is
  not defined by the module: a subclass has it or the call raises.
\<close>

text \<open>
  The keyword arguments a form is built from: \<open>initial\<close> and \<open>prefix\<close> always, \<open>data\<close> and
  \<open>files\<close> when the request is a POST or a PUT.
\<close>

record ('i, 'u) form_kwargs =
  kw_initial :: 'i
  kw_prefix :: "string option"
  kw_data :: "querydict option"
  kw_files :: "'u option"

record ('k, 'f, 'i, 'u, 's, 'c, 'r) multiform_env =
  form_classes :: "(string \<times> 'k) list"
  instantiate :: "'k \<Rightarrow> ('i, 'u) form_kwargs \<Rightarrow> 'f"
  create_form_methods :: "string \<rightharpoonup> (('i, 'u) form_kwargs \<Rightarrow> 'f)"
  initial_methods :: "string \<rightharpoonup> 'i"
  view_initial :: 'i
  prefixes :: "string \<rightharpoonup> string"
  view_prefix :: "string option"
  is_valid :: "'f \<Rightarrow> bool"
  form_valid_methods :: "string \<rightharpoonup> ('f \<Rightarrow> ('s, 'r response) stmt)"
  all_forms_valid :: "((string \<times> 'f) list \<Rightarrow> ('s, unit) stmt) option"
  view_get_success_url :: "'s \<Rightarrow> exn + string"
  super_get_context_data :: "(string \<times> 'f) list \<Rightarrow> 's \<Rightarrow> exn + 'c"
  render_to_response :: "'c \<Rightarrow> 's \<Rightarrow> exn + 'r"

definition get_initial :: "('k, 'f, 'i, 'u, 's, 'c, 'r) multiform_env \<Rightarrow> string \<Rightarrow> 'i" where
  "get_initial env form_name =
     (case initial_methods env (''get_'' @ form_name @ ''_initial'') of
        Some initial_method \<Rightarrow> initial_method
      | None \<Rightarrow> view_initial env)"

definition get_prefix ::
  "('k, 'f, 'i, 'u, 's, 'c, 'r) multiform_env \<Rightarrow> string \<Rightarrow> string option" where
  "get_prefix env form_name =
     (case prefixes env form_name of Some p \<Rightarrow> Some p | None \<Rightarrow> view_prefix env)"

definition get_form_kwargs ::
  "('k, 'f, 'i, 'u, 's, 'c, 'r) multiform_env \<Rightarrow> 'u request \<Rightarrow> string \<Rightarrow> ('i, 'u) form_kwargs" where
  "get_form_kwargs env request form_name =
     (let kwargs = \<lparr>kw_initial = get_initial env form_name, kw_prefix = get_prefix env form_name,
                    kw_data = None, kw_files = None\<rparr>
      in if request_method request \<in> {''POST'', ''PUT''}
         then kwargs\<lparr>kw_data := Some (POST request), kw_files := Some (FILES request)\<rparr>
         else kwargs)"

definition create_form ::
  "('k, 'f, 'i, 'u, 's, 'c, 'r) multiform_env \<Rightarrow> 'u request \<Rightarrow> string \<Rightarrow> 'k \<Rightarrow> 'f" where
  \<comment> \<open>\<open>MultiFormView._create_form\<close>\<close>
  "create_form env request form_name klass =
     (let form_kwargs = get_form_kwargs env request form_name
      in case create_form_methods env (''create_'' @ form_name @ ''_form'') of
           Some form_create_method \<Rightarrow> form_create_method form_kwargs
         | None \<Rightarrow> instantiate env klass form_kwargs)"

definition get_form_classes ::
  "('k, 'f, 'i, 'u, 's, 'c, 'r) multiform_env \<Rightarrow> (string \<times> 'k) list" where
  "get_form_classes env = form_classes env"

definition get_forms ::
  "('k, 'f, 'i, 'u, 's, 'c, 'r) multiform_env \<Rightarrow> 'u request \<Rightarrow> (string \<times> 'k) list
     \<Rightarrow> (string \<times> 'f) list" where
  "get_forms env request classes =
     map (\<lambda>(key, klass). (key, create_form env request key klass)) classes"

fun first_form_valid ::
  "('k, 'f, 'i, 'u, 's, 'c, 'r) multiform_env \<Rightarrow> (string \<times> 'f) list
     \<Rightarrow> ('s, 'r response) stmt option" where
  \<comment> \<open>the \<open>for\<close> loop of \<open>forms_valid\<close>: the \<open>return\<close> it reaches, if it reaches one\<close>
  "first_form_valid env [] = None"
| "first_form_valid env ((form_name, form) # rest) =
     (case form_valid_methods env (form_name @ ''_form_valid'') of
        Some form_valid_method \<Rightarrow> Some (form_valid_method form)
      | None \<Rightarrow> first_form_valid env rest)"

definition forms_valid ::
  "('k, 'f, 'i, 'u, 's, 'c, 'r) multiform_env \<Rightarrow> (string \<times> 'f) list \<Rightarrow> ('s, 'r response) stmt" where
  "forms_valid env forms =
     (case first_form_valid env forms of
        Some returned \<Rightarrow> returned
      | None \<Rightarrow>
          bnd (case all_forms_valid env of
                 Some all_valid \<Rightarrow> all_valid forms
               | None \<Rightarrow> raise (AttributeError ''all_forms_valid'')) (\<lambda>_.
          bnd (reading (view_get_success_url env)) (\<lambda>url.
          ret (HttpResponseRedirect url))))"

definition multiform_get_context_data ::
  "('k, 'f, 'i, 'u, 's, 'c, 'r) multiform_env \<Rightarrow> 'u request \<Rightarrow> (string \<times> 'f) list option
     \<Rightarrow> ('s, 'c) stmt" where
  \<comment> \<open>\<open>MultiFormView.get_context_data\<close>; the argument is the keyword \<open>forms\<close>, if given\<close>
  "multiform_get_context_data env request forms_kwarg =
     (let forms = (case forms_kwarg of
                     None \<Rightarrow> get_forms env request (get_form_classes env)
                   | Some forms \<Rightarrow> forms)
      in reading (super_get_context_data env forms))"

definition forms_invalid ::
  "('k, 'f, 'i, 'u, 's, 'c, 'r) multiform_env \<Rightarrow> 'u request \<Rightarrow> (string \<times> 'f) list
     \<Rightarrow> ('s, 'r response) stmt" where
  "forms_invalid env request forms =
     bnd (multiform_get_context_data env request (Some forms)) (\<lambda>context.
     bnd (reading (render_to_response env context)) (\<lambda>r.
     ret (Inherited r)))"

definition post ::
  "('k, 'f, 'i, 'u, 's, 'c, 'r) multiform_env \<Rightarrow> 'u request \<Rightarrow> ('s, 'r response) stmt" where
  \<comment> \<open>\<open>MultiFormView.post\<close>\<close>
  "post env request =
     (let form_classes = get_form_classes env;
          forms = get_forms env request form_classes
      in if list_all (\<lambda>valid. valid) (map (\<lambda>(name, form). is_valid env form) forms)
         then forms_valid env forms
         else forms_invalid env request forms)"

subsection \<open>AssignRemoveView.process_form\<close>

text \<open>
  The choices of a list are pairs of key and label, or groups of such pairs under a
  group name; a group is a Python list or a tuple. What \<open>dict(flat_list)[selection]\<close>
  gives is a label or, when a grouped list is read with \<open>grouped\<close> off, a group.
\<close>

datatype container = PyList | PyTuple

datatype label = Label string | Group container "(string \<times> string) list"

datatype choices =
    Flat "(string \<times> string) list"
  | Grouped "(string \<times> container \<times> (string \<times> string) list) list"

datatype 'o selected = Selection string | Object 'o

record ('s, 'o) assign_env =
  DEBUG :: bool
  grouped :: bool
  decode_content_type :: bool
  get_object_for_this_type :: "string \<Rightarrow> string \<Rightarrow> 's \<Rightarrow> exn + 'o"
  ChoiceForm :: "querydict \<Rightarrow> choices \<Rightarrow> string \<Rightarrow> string list option"

text \<open>
  \<open>ChoiceForm\<close> stands for building the form, \<open>form.is_valid()\<close> and
  \<open>form.cleaned_data['selection']\<close>: \<open>None\<close> for a form that is not valid.
\<close>

fun split_on :: "char \<Rightarrow> string \<Rightarrow> string list" where
  "split_on c [] = [[]]"
| "split_on c (x # xs) =
     (if x = c then [] # split_on c xs
      else (case split_on c xs of [] \<Rightarrow> [[x]] | p # ps \<Rightarrow> (x # p) # ps))"

definition flat_list :: "bool \<Rightarrow> choices \<Rightarrow> exn + (string \<times> label) list" where
  \<comment> \<open>the pairs that \<open>dict(flat_list)\<close> is built from. With \<open>grouped\<close> on and a list that is
      not grouped, \<open>extend(group[1])\<close> appends the characters of each label, and \<open>dict\<close>
      refuses a one-character element\<close>
  "flat_list is_grouped items =
     (if is_grouped
      then (case items of
              Grouped groups \<Rightarrow>
                Inr (map (\<lambda>(key, l). (key, Label l))
                       (concat (map (\<lambda>(name, kind, pairs). pairs) groups)))
            | Flat pairs \<Rightarrow>
                if concat (map snd pairs) = [] then Inr []
                else Inl (ValueError ''dictionary update sequence element #0 has length 1; 2 is required''))
      else (case items of
              Flat pairs \<Rightarrow> Inr (map (\<lambda>(key, l). (key, Label l)) pairs)
            | Grouped groups \<Rightarrow>
                Inr (map (\<lambda>(name, kind, pairs). (name, Group kind pairs)) groups)))"

definition dict_getitem :: "(string \<times> 'a) list \<Rightarrow> string \<Rightarrow> exn + 'a" where
  \<comment> \<open>\<open>dict(pairs)[key]\<close>: a later pair replaces an earlier one of the same key\<close>
  "dict_getitem pairs key =
     (case map_of (rev pairs) key of None \<Rightarrow> Inl (KeyError key) | Some v \<Rightarrow> Inr v)"

definition unable_to_transfer :: "label \<Rightarrow> exn + msg_text" where
  \<comment> \<open>\<open>_('Unable to transfer selection: %s.') % label\<close>. A text and a list are one
      argument; a tuple is the sequence of the arguments, and \<open>%\<close> raises unless it
      holds exactly the one that the format asks for\<close>
  "unable_to_transfer l =
     (case l of
        Label text \<Rightarrow> Inr (Format1 ''Unable to transfer selection: %s.'' (Text text))
      | Group PyList pairs \<Rightarrow> Inr (Format1 ''Unable to transfer selection: %s.'' (Items pairs))
      | Group PyTuple pairs \<Rightarrow>
          (case pairs of
             [] \<Rightarrow> Inl (TypeError ''not enough arguments for format string'')
           | [pair] \<Rightarrow> Inr (Format1 ''Unable to transfer selection: %s.'' (Item pair))
           | _ \<Rightarrow> Inl (TypeError ''not all arguments converted during string formatting'')))"

definition resolve_selection ::
  "(('w, 'q, 'o) view, 'x) assign_env \<Rightarrow> (('w, 'q, 'o) view \<Rightarrow> exn + choices) \<Rightarrow> string
     \<Rightarrow> (('w, 'q, 'o) view, label \<times> 'x selected) stmt" where
  \<comment> \<open>the body of the loop up to the \<open>try\<close>: \<open>label\<close> and \<open>selection_obj\<close>\<close>
  "resolve_selection env items_function selection =
     bnd (reading items_function) (\<lambda>items.
     bnd (reading (\<lambda>_. flat_list (grouped env) items)) (\<lambda>flat.
     bnd (reading (\<lambda>_. dict_getitem flat selection)) (\<lambda>label.
     bnd (if decode_content_type env
          then (case split_on (CHR '','') selection of
                  [model, pk_text] \<Rightarrow>
                    bnd (reading (get_object_for_this_type env model pk_text)) (\<lambda>ob. ret (Object ob))
                | _ \<Rightarrow> raise (ValueError ''unpack''))
          else ret (Selection selection)) (\<lambda>selection_obj.
     ret (label, selection_obj)))))"

fun transfer ::
  "(('w, 'q, 'o) view, 'x) assign_env \<Rightarrow> (('w, 'q, 'o) view \<Rightarrow> exn + choices)
     \<Rightarrow> ('x selected \<Rightarrow> (('w, 'q, 'o) view, unit) stmt) \<Rightarrow> string list
     \<Rightarrow> (('w, 'q, 'o) view, unit) stmt" where
  \<comment> \<open>\<open>for selection in form.cleaned_data['selection']:\<close>; what the handler raises
      (the exception again with \<open>DEBUG\<close> on, a failure of \<open>%\<close> with \<open>DEBUG\<close> off) leaves
      the loop\<close>
  "transfer env items_function action_function [] = ret ()"
| "transfer env items_function action_function (selection # rest) =
     bnd (resolve_selection env items_function selection) (\<lambda>(label, selection_obj).
     bnd (try_except (action_function selection_obj)
            (\<lambda>e. if DEBUG env then raise e
                 else bnd (reading (\<lambda>_. unable_to_transfer label)) (\<lambda>message.
                      messages_error message))) (\<lambda>_.
     transfer env items_function action_function rest))"

definition process_form ::
  "(('w, 'q, 'o) view, 'x) assign_env \<Rightarrow> 'u request \<Rightarrow> string
     \<Rightarrow> (('w, 'q, 'o) view \<Rightarrow> exn + choices)
     \<Rightarrow> ('x selected \<Rightarrow> (('w, 'q, 'o) view, unit) stmt)
     \<Rightarrow> (('w, 'q, 'o) view, unit) stmt" where
  "process_form env request prefix items_function action_function =
     (if POST request (prefix @ ''-submit'') \<noteq> None
      then bnd (reading items_function) (\<lambda>items.
           case ChoiceForm env (POST request) items prefix of
             Some selections \<Rightarrow> transfer env items_function action_function selections
           | None \<Rightarrow> ret ())
      else ret ())"

subsection \<open>Example instances\<close>

text \<open>
  Small concrete views on which the properties below are run. A queryset is the list of
  its ordering fields; \<open>order_by\<close> replaces the ordering and, as the framework's does when
  it is called, refuses an argument that is not an optional sign followed by a name of
  letters, digits, underscores and dots. The next \<open>get_queryset\<close> of the resolution order
  refuses a view without \<open>queryset\<close>.
\<close>

definition name_chars :: string where
  "name_chars = ''abcdefghijklmnopqrstuvwxyzABCDEFGHIJKLMNOPQRSTUVWXYZ0123456789_.''"

definition example_order_by :: "string \<Rightarrow> string list \<Rightarrow> exn + string list" where
  "example_order_by field q =
     (let name = (case field of
                    [] \<Rightarrow> []
                  | c # rest \<Rightarrow> if c = CHR ''-'' \<or> c = CHR ''+'' then rest else field)
      in if name \<noteq> [] \<and> list_all (\<lambda>c. c \<in> set name_chars) name
         then Inr [field]
         else Inl (FieldError ''Invalid order_by arguments''))"

definition empty_view :: "'w \<Rightarrow> ('w, 'q, 'o) view" where
  "empty_view w = \<lparr>world = w, flashed = [], queryset = None, field_name = None, object = None\<rparr>"

definition request_of :: "string \<Rightarrow> (string \<times> string list) list \<Rightarrow> unit request" where
  "request_of verb params =
     \<lparr>request_method = verb,
      GET = (if verb = ''GET'' then map_of params else Map.empty),
      POST = (if verb = ''POST'' then map_of params else Map.empty),
      FILES = ()\<rparr>"

definition example_queryset_env :: "((unit, string list, unit) view, string list) queryset_env" where
  "example_queryset_env =
     \<lparr>super_get_queryset =
        (\<lambda>s. case queryset s of
               None \<Rightarrow> Inl (ImproperlyConfigured ''missing queryset'')
             | Some q \<Rightarrow> Inr q),
      get_source_queryset = (\<lambda>s. Inr [''pk'']),
      order_by = example_order_by,
      TEXT_SORT_FIELD_PARAMETER = ''_sort_field'',
      TEXT_SORT_ORDER_PARAMETER = ''_sort_order'',
      TEXT_SORT_ORDER_CHOICE_ASCENDING = ''asc''\<rparr>"

definition example_guarded_class :: "string pyclass" where
  "example_guarded_class =
     \<lparr>body = \<lparr>class_name = ''SingleObjectListView'',
              class_dict = [''__init__'' \<mapsto> ''SingleObjectListView.__init__'',
                            ''get_queryset'' \<mapsto> ''SingleObjectListView.get_queryset'']\<rparr>,
      ancestors = [\<lparr>class_name = ''RestrictedQuerysetMixin'',
                    class_dict = [''get_queryset'' \<mapsto> ''RestrictedQuerysetMixin.get_queryset'']\<rparr>,
                   \<lparr>class_name = ''ListView'',
                    class_dict = [''get_queryset'' \<mapsto> ''MultipleObjectMixin.get_queryset'']\<rparr>]\<rparr>"

definition example_overriding_class :: "string pyclass" where
  "example_overriding_class =
     \<lparr>body = \<lparr>class_name = ''DocumentListView'',
              class_dict = [''get_queryset'' \<mapsto> ''DocumentListView.get_queryset'']\<rparr>,
      ancestors = mro example_guarded_class\<rparr>"

definition example_conforming_class :: "string pyclass" where
  "example_conforming_class =
     \<lparr>body = \<lparr>class_name = ''TagListView'',
              class_dict = [''get_source_queryset'' \<mapsto> ''TagListView.get_source_queryset'']\<rparr>,
      ancestors = mro example_guarded_class\<rparr>"


text \<open>
  A view of two forms over a counter. A form is its class's name and whether its data
  validate: the data have a value under the name of the class.
\<close>

definition example_multiform_env ::
  "(string \<rightharpoonup> (string \<times> bool \<Rightarrow> (nat, string response) stmt))
     \<Rightarrow> (string, string \<times> bool, unit, unit, nat, string list, string) multiform_env" where
  "example_multiform_env handlers =
     \<lparr>form_classes = [(''document'', ''DocumentForm''), (''tag'', ''TagForm'')],
      instantiate =
        (\<lambda>klass kwargs.
           (klass, case kw_data kwargs of None \<Rightarrow> False | Some d \<Rightarrow> d klass \<noteq> None)),
      create_form_methods = Map.empty,
      initial_methods = Map.empty,
      view_initial = (),
      prefixes = Map.empty,
      view_prefix = None,
      is_valid = (\<lambda>form. snd form),
      form_valid_methods = handlers,
      all_forms_valid = Some (\<lambda>forms. modify (\<lambda>n. n + 10)),
      view_get_success_url = (\<lambda>s. Inr ''/done/''),
      super_get_context_data = (\<lambda>forms s. Inr (map fst forms)),
      render_to_response = (\<lambda>context s. Inr (concat context))\<rparr>"

definition example_handlers :: "string \<rightharpoonup> (string \<times> bool \<Rightarrow> (nat, string response) stmt)" where
  "example_handlers =
     [''tag_form_valid'' \<mapsto> (\<lambda>form. bnd (modify Suc) (\<lambda>_. ret (Inherited (fst form))))]"

text \<open>
  An assign view whose world is the list of the keys transferred so far; transferring
  the key \<open>2\<close> fails.
\<close>

definition example_assign_env :: "bool \<Rightarrow> ((string list, unit, unit) view, unit) assign_env" where
  "example_assign_env debug =
     \<lparr>DEBUG = debug,
      grouped = False,
      decode_content_type = False,
      get_object_for_this_type = (\<lambda>model pk_text s. Inl (Exception ''DoesNotExist'')),
      ChoiceForm = (\<lambda>d items prefix. d (prefix @ ''-selection''))\<rparr>"

definition example_left_list :: "(string list, unit, unit) view \<Rightarrow> exn + choices" where
  "example_left_list s = Inr (Flat [(''1'', ''alice''), (''2'', ''bob''), (''3'', ''carol'')])"

definition example_group_list :: "(string list, unit, unit) view \<Rightarrow> exn + choices" where
  \<comment> \<open>groups that are tuples, each named by the key of its first member\<close>
  "example_group_list s =
     Inr (Grouped [(''2'', PyTuple, [(''2'', ''bob''), (''9'', ''zoe'')]),
                   (''3'', PyTuple, [(''3'', ''carol''), (''8'', ''yan'')])])"

definition example_add :: "unit selected \<Rightarrow> ((string list, unit, unit) view, unit) stmt" where
  "example_add item =
     (case item of
        Selection key \<Rightarrow>
          if key = ''2'' then raise (Exception ''locked'')
          else modify (\<lambda>s. s\<lparr>world := world s @ [key]\<rparr>)
      | Object ob \<Rightarrow> ret ())"

section \<open>Properties\<close>

text \<open>
  C6: for every sequence of instances, \<open>generate_choices\<close> returns one pair per
  instance, with key \<open><content-type model>,<pk>\<close> and the instance's text as value;
  the list is sorted by the value (the second component), pairs of equal value keep the
  order of the input, and it is not sorted by key in general.
\<close>

theorem generate_choices_sorted_by_label:
  "sorted (map snd (generate_choices choices))
   \<and> mset (generate_choices choices)
       = mset (map (\<lambda>c. (ct_model c @ '','' @ str_pk (pk c), force_text c)) choices)
   \<and> length (generate_choices choices) = length choices
   \<and> filter (\<lambda>x. snd x = l) (generate_choices choices)
       = filter (\<lambda>x. snd x = l) (map choice_pair choices)
   \<and> \<not> sorted (map fst (generate_choices
         [\<lparr>ct_model = ''user'', pk = IntPk 7, force_text = ''alice''\<rparr>,
          \<lparr>ct_model = ''group'', pk = IntPk 12, force_text = ''bob''\<rparr>]))"
proof -
  have key_order: "\<not> sorted (map fst (generate_choices
         [\<lparr>ct_model = ''user'', pk = IntPk 7, force_text = ''alice''\<rparr>,
          \<lparr>ct_model = ''group'', pk = IntPk 12, force_text = ''bob''\<rparr>]))"
    by code_simp
  have "sorted (map snd (generate_choices choices))"
    unfolding generate_choices_def by (rule sorted_sort_key)
  moreover have "mset (generate_choices choices)
       = mset (map (\<lambda>c. (ct_model c @ '','' @ str_pk (pk c), force_text c)) choices)"
    unfolding generate_choices_def choice_pair_def by simp
  moreover have "length (generate_choices choices) = length choices"
    unfolding generate_choices_def by simp
  moreover have "filter (\<lambda>x. snd x = l) (generate_choices choices)
       = filter (\<lambda>x. snd x = l) (map choice_pair choices)"
    unfolding generate_choices_def by (rule sort_key_stable)
  ultimately show ?thesis using key_order by blast
qed

theorem generate_choices_sorted_by_label_witness:
  "generate_choices
     [\<lparr>ct_model = ''user'', pk = IntPk 7, force_text = ''bob''\<rparr>,
      \<lparr>ct_model = ''group'', pk = IntPk (- 12), force_text = ''alice''\<rparr>,
      \<lparr>ct_model = ''role'', pk = TextPk ''a1'', force_text = ''bob''\<rparr>]
   = [(''group,-12'', ''alice''), (''user,7'', ''bob''), (''role,a1'', ''bob'')]
   \<and> sorted (map snd (generate_choices
     [\<lparr>ct_model = ''user'', pk = IntPk 7, force_text = ''bob''\<rparr>,
      \<lparr>ct_model = ''group'', pk = IntPk (- 12), force_text = ''alice''\<rparr>,
      \<lparr>ct_model = ''role'', pk = TextPk ''a1'', force_text = ''bob''\<rparr>]))"
proof -
  have "generate_choices
     [\<lparr>ct_model = ''user'', pk = IntPk 7, force_text = ''bob''\<rparr>,
      \<lparr>ct_model = ''group'', pk = IntPk (- 12), force_text = ''alice''\<rparr>,
      \<lparr>ct_model = ''role'', pk = TextPk ''a1'', force_text = ''bob''\<rparr>]
   = [(''group,-12'', ''alice''), (''user,7'', ''bob''), (''role,a1'', ''bob'')]"
    by code_simp
  then show ?thesis
    using generate_choices_sorted_by_label
      [of "[\<lparr>ct_model = ''user'', pk = IntPk 7, force_text = ''bob''\<rparr>,
      \<lparr>ct_model = ''group'', pk = IntPk (- 12), force_text = ''alice''\<rparr>,
      \<lparr>ct_model = ''role'', pk = TextPk ''a1'', force_text = ''bob''\<rparr>]" "''bob''"]
    by blast
qed

text \<open>
  C7: \<open>get_paginate_by\<close> returns the value of the global setting, whatever the queryset
  and whatever the view's own attributes are.
\<close>

theorem get_paginate_by_global_setting:
  "get_paginate_by setting_paginate_by self queryset = setting_value setting_paginate_by
   \<and> get_paginate_by setting_paginate_by self queryset
       = get_paginate_by setting_paginate_by self' queryset'"
  by (simp add: get_paginate_by_def)

lemmas stmt_defs =
  ret_def raise_def bnd_def reading_def modify_def try_except_def try_except_else_def
  messages_error_def messages_success_def

lemmas example_defs =
  empty_view_def request_of_def example_queryset_env_def example_order_by_def name_chars_def

subsection \<open>Sorting and the queryset lookup\<close>

lemma sort_queryset_result:
  "sort_queryset env request q s =
     (case querydict_get (GET request) (TEXT_SORT_FIELD_PARAMETER env) of
        None \<Rightarrow> Inr q
      | Some f \<Rightarrow>
          if f = [] then Inr q
          else if querydict_get (GET request) (TEXT_SORT_ORDER_PARAMETER env)
                    = Some (TEXT_SORT_ORDER_CHOICE_ASCENDING env)
          then order_by env f q
          else order_by env (''-'' @ f) q,
      s\<lparr>field_name := querydict_get (GET request) (TEXT_SORT_FIELD_PARAMETER env)\<rparr>)"
  by (simp add: sort_queryset_def get_sort_field_def get_sort_order_def stmt_defs Let_def
           split: option.splits)

lemma lookup_queryset_cases:
  "lookup_queryset env s =
     (case super_get_queryset env s of
        Inr q \<Rightarrow> (Inr q, s)
      | Inl (ImproperlyConfigured m) \<Rightarrow>
          (case get_source_queryset env s of
             Inl e' \<Rightarrow> (Inl e', s)
           | Inr source \<Rightarrow>
               (super_get_queryset env (s\<lparr>queryset := Some source\<rparr>),
                s\<lparr>queryset := Some source\<rparr>))
      | Inl e \<Rightarrow> (Inl e, s))"
  by (simp add: lookup_queryset_def stmt_defs split: exn.splits sum.splits)

lemma list_view_after_lookup:
  "lookup_queryset env s = (Inr q, s')
     \<Longrightarrow> list_get_queryset env request s = sort_queryset env request q s'"
  by (simp add: list_get_queryset_def bnd_def)

text \<open>
  C1 as the code has it: once the queryset \<open>q\<close> was looked up, the list view's
  \<open>get_queryset\<close> reads the sort-field parameter. If it is not empty, \<open>order_by\<close> is called
  on \<open>q\<close> with the field as it is when the sort-order parameter is the ascending choice,
  and with the field prefixed with \<open>-\<close> in every other case, the absent parameter
  included; the outcome of \<open>get_queryset\<close> is the outcome of that call, the ordered
  queryset or the exception that \<open>order_by\<close> raises. Without a sort-field parameter, or
  with an empty one, the result is \<open>q\<close> itself. The field read is kept in
  \<open>self.field_name\<close>.
\<close>

theorem list_get_queryset_sorting:
  assumes "lookup_queryset env s = (Inr q, s')"
  shows "(querydict_get (GET request) (TEXT_SORT_FIELD_PARAMETER env) = Some f \<and> f \<noteq> []
            \<and> querydict_get (GET request) (TEXT_SORT_ORDER_PARAMETER env)
                = Some (TEXT_SORT_ORDER_CHOICE_ASCENDING env)
          \<longrightarrow> fst (get_queryset SingleObjectListView env request s) = order_by env f q)
       \<and> (querydict_get (GET request) (TEXT_SORT_FIELD_PARAMETER env) = Some f \<and> f \<noteq> []
            \<and> querydict_get (GET request) (TEXT_SORT_ORDER_PARAMETER env)
                \<noteq> Some (TEXT_SORT_ORDER_CHOICE_ASCENDING env)
          \<longrightarrow> fst (get_queryset SingleObjectListView env request s) = order_by env (''-'' @ f) q)
       \<and> (querydict_get (GET request) (TEXT_SORT_FIELD_PARAMETER env) = None
            \<or> querydict_get (GET request) (TEXT_SORT_FIELD_PARAMETER env) = Some []
          \<longrightarrow> fst (get_queryset SingleObjectListView env request s) = Inr q)
       \<and> snd (get_queryset SingleObjectListView env request s)
           = s'\<lparr>field_name := querydict_get (GET request) (TEXT_SORT_FIELD_PARAMETER env)\<rparr>"
  by (auto simp: list_view_after_lookup [OF assms] sort_queryset_result)

theorem list_get_queryset_sorting_witness:
  "lookup_queryset example_queryset_env (empty_view ())
     = (Inr [''pk''], (empty_view ())\<lparr>queryset := Some [''pk'']\<rparr>)
   \<and> fst (get_queryset SingleObjectListView example_queryset_env
             (request_of ''GET'' [(''_sort_field'', [''label'']), (''_sort_order'', [''asc''])])
             (empty_view ())) = Inr [''label'']
   \<and> fst (get_queryset SingleObjectListView example_queryset_env
             (request_of ''GET'' [(''_sort_field'', [''label'']), (''_sort_order'', [''desc''])])
             (empty_view ())) = Inr [''-label'']
   \<and> fst (get_queryset SingleObjectListView example_queryset_env
             (request_of ''GET'' [(''_sort_field'', [''label''])])
             (empty_view ())) = Inr [''-label'']
   \<and> fst (get_queryset SingleObjectListView example_queryset_env
             (request_of ''GET'' [(''_sort_field'', [''a b'']), (''_sort_order'', [''asc''])])
             (empty_view ())) = Inl (FieldError ''Invalid order_by arguments'')
   \<and> fst (get_queryset SingleObjectListView example_queryset_env
             (request_of ''GET'' [])
             (empty_view ())) = Inr [''pk'']"
proof -
  have looked_up: "lookup_queryset example_queryset_env (empty_view ())
     = (Inr [''pk''], (empty_view ())\<lparr>queryset := Some [''pk'']\<rparr>)"
    by (simp add: lookup_queryset_cases example_defs)
  have params:
    "TEXT_SORT_FIELD_PARAMETER example_queryset_env = ''_sort_field''"
    "TEXT_SORT_ORDER_PARAMETER example_queryset_env = ''_sort_order''"
    "TEXT_SORT_ORDER_CHOICE_ASCENDING example_queryset_env = ''asc''"
    "order_by example_queryset_env = example_order_by"
    by (simp_all add: example_queryset_env_def)
  have ordered:
    "example_order_by ''label'' [''pk''] = Inr [''label'']"
    "example_order_by ''-label'' [''pk''] = Inr [''-label'']"
    "example_order_by ''a b'' [''pk''] = Inl (FieldError ''Invalid order_by arguments'')"
    by (simp_all add: example_order_by_def name_chars_def)
  show ?thesis
    using looked_up
      list_get_queryset_sorting [OF looked_up,
        of "request_of ''GET'' [(''_sort_field'', [''label'']), (''_sort_order'', [''asc''])]"
           "''label''"]
      list_get_queryset_sorting [OF looked_up,
        of "request_of ''GET'' [(''_sort_field'', [''label'']), (''_sort_order'', [''desc''])]"
           "''label''"]
      list_get_queryset_sorting [OF looked_up,
        of "request_of ''GET'' [(''_sort_field'', [''label''])]" "''label''"]
      list_get_queryset_sorting [OF looked_up,
        of "request_of ''GET'' [(''_sort_field'', [''a b'']), (''_sort_order'', [''asc''])]"
           "''a b''"]
      list_get_queryset_sorting [OF looked_up, of "request_of ''GET'' []" "''label''"]
    by (simp add: params ordered request_of_def querydict_get_def)
qed

text \<open>
  A request whose sort field already begins with \<open>-\<close> and that names no sort order:
  \<open>order_by\<close> is called with \<open>--label\<close>, refuses it, and \<open>get_queryset\<close> raises instead of
  returning a queryset.
\<close>

theorem list_get_queryset_refused_field_counterexample:
  "querydict_get (GET (request_of ''GET'' [(''_sort_field'', [''-label''])]))
       (TEXT_SORT_FIELD_PARAMETER example_queryset_env) = Some ''-label''
   \<and> lookup_queryset example_queryset_env (empty_view ())
       = (Inr [''pk''], (empty_view ())\<lparr>queryset := Some [''pk'']\<rparr>)
   \<and> order_by example_queryset_env ''--label'' [''pk'']
       = Inl (FieldError ''Invalid order_by arguments'')
   \<and> get_queryset SingleObjectListView example_queryset_env
        (request_of ''GET'' [(''_sort_field'', [''-label''])]) (empty_view ())
       = (Inl (FieldError ''Invalid order_by arguments''),
          (empty_view ())\<lparr>queryset := Some [''pk''], field_name := Some ''-label''\<rparr>)"
  by (simp add: list_get_queryset_def bnd_def lookup_queryset_cases sort_queryset_result
        example_defs querydict_get_def)

text \<open>
  C2 as the code has it: each \<open>get_queryset\<close> first asks the next \<open>get_queryset\<close> of the
  resolution order. What that returns, or raises other than \<open>ImproperlyConfigured\<close>, is
  the outcome of the lookup, and the view is unchanged. On \<open>ImproperlyConfigured\<close>, and
  only then, \<open>self.queryset\<close> becomes the result of \<open>get_source_queryset()\<close> and the
  outcome of the lookup is that of the next \<open>get_queryset\<close> asked again. Six of the
  views return the outcome of the lookup. So does the list view when the lookup raises
  or the request has no sort field, or an empty one; with a sort field it returns the
  outcome of \<open>order_by\<close> called on the looked-up queryset.
\<close>

theorem get_queryset_fallback:
  "(guarded \<noteq> SingleObjectListView \<longrightarrow> get_queryset guarded env request = lookup_queryset env)
   \<and> (super_get_queryset env s = Inr q \<longrightarrow> lookup_queryset env s = (Inr q, s))
   \<and> (super_get_queryset env s = Inl e \<and> (\<forall>m. e \<noteq> ImproperlyConfigured m)
        \<longrightarrow> lookup_queryset env s = (Inl e, s))
   \<and> (super_get_queryset env s = Inl (ImproperlyConfigured m)
        \<and> get_source_queryset env s = Inr source
        \<longrightarrow> lookup_queryset env s
            = (super_get_queryset env (s\<lparr>queryset := Some source\<rparr>),
               s\<lparr>queryset := Some source\<rparr>))
   \<and> (super_get_queryset env s = Inl (ImproperlyConfigured m)
        \<and> get_source_queryset env s = Inl e'
        \<longrightarrow> lookup_queryset env s = (Inl e', s))
   \<and> (lookup_queryset env s = (Inl e, s')
        \<longrightarrow> get_queryset SingleObjectListView env request s = (Inl e, s'))
   \<and> (lookup_queryset env s = (Inr q, s')
        \<and> (querydict_get (GET request) (TEXT_SORT_FIELD_PARAMETER env) = None
             \<or> querydict_get (GET request) (TEXT_SORT_FIELD_PARAMETER env) = Some [])
        \<longrightarrow> fst (get_queryset SingleObjectListView env request s) = Inr q)
   \<and> (lookup_queryset env s = (Inr q, s')
        \<and> querydict_get (GET request) (TEXT_SORT_FIELD_PARAMETER env) = Some f \<and> f \<noteq> []
        \<longrightarrow> fst (get_queryset SingleObjectListView env request s)
            = order_by env
                ((if querydict_get (GET request) (TEXT_SORT_ORDER_PARAMETER env)
                       = Some (TEXT_SORT_ORDER_CHOICE_ASCENDING env)
                  then [] else ''-'') @ f) q)"
proof -
  have "guarded \<noteq> SingleObjectListView \<longrightarrow> get_queryset guarded env request = lookup_queryset env"
    by (cases guarded) simp_all
  moreover have "super_get_queryset env s = Inl e \<and> (\<forall>m. e \<noteq> ImproperlyConfigured m)
        \<longrightarrow> lookup_queryset env s = (Inl e, s)"
    by (cases e) (simp_all add: lookup_queryset_cases)
  moreover have "lookup_queryset env s = (Inl e, s')
        \<longrightarrow> get_queryset SingleObjectListView env request s = (Inl e, s')"
    by (simp add: list_get_queryset_def bnd_def)
  moreover have "lookup_queryset env s = (Inr q, s')
        \<and> (querydict_get (GET request) (TEXT_SORT_FIELD_PARAMETER env) = None
             \<or> querydict_get (GET request) (TEXT_SORT_FIELD_PARAMETER env) = Some [])
        \<longrightarrow> fst (get_queryset SingleObjectListView env request s) = Inr q"
    by (auto simp: list_view_after_lookup sort_queryset_result)
  moreover have "lookup_queryset env s = (Inr q, s')
        \<and> querydict_get (GET request) (TEXT_SORT_FIELD_PARAMETER env) = Some f \<and> f \<noteq> []
        \<longrightarrow> fst (get_queryset SingleObjectListView env request s)
            = order_by env
                ((if querydict_get (GET request) (TEXT_SORT_ORDER_PARAMETER env)
                       = Some (TEXT_SORT_ORDER_CHOICE_ASCENDING env)
                  then [] else ''-'') @ f) q"
    by (auto simp: list_view_after_lookup sort_queryset_result)
  ultimately show ?thesis
    by (simp add: lookup_queryset_cases)
qed

theorem get_queryset_fallback_witness:
  "super_get_queryset example_queryset_env (empty_view ())
     = Inl (ImproperlyConfigured ''missing queryset'')
   \<and> get_source_queryset example_queryset_env (empty_view ()) = Inr [''pk'']
   \<and> get_queryset SingleObjectDeleteView example_queryset_env (request_of ''GET'' []) (empty_view ())
       = (Inr [''pk''], (empty_view ())\<lparr>queryset := Some [''pk'']\<rparr>)
   \<and> super_get_queryset example_queryset_env ((empty_view ())\<lparr>queryset := Some [''id'']\<rparr>)
       = Inr [''id'']
   \<and> get_queryset SingleObjectDetailView example_queryset_env (request_of ''GET'' [])
        ((empty_view ())\<lparr>queryset := Some [''id'']\<rparr>)
       = (Inr [''id''], (empty_view ())\<lparr>queryset := Some [''id'']\<rparr>)
   \<and> fst (get_queryset SingleObjectListView example_queryset_env (request_of ''GET'' [])
        (empty_view ())) = Inr [''pk'']
   \<and> fst (get_queryset SingleObjectListView example_queryset_env
        (request_of ''GET'' [(''_sort_field'', [''label''])]) (empty_view ())) = Inr [''-label'']"
proof -
  have raised: "super_get_queryset example_queryset_env (empty_view ())
     = Inl (ImproperlyConfigured ''missing queryset'')"
    by (simp add: example_defs)
  have source: "get_source_queryset example_queryset_env (empty_view ()) = Inr [''pk'']"
    by (simp add: example_defs)
  have again: "super_get_queryset example_queryset_env ((empty_view ())\<lparr>queryset := Some [''pk'']\<rparr>)
     = Inr [''pk'']"
    by (simp add: example_defs)
  have found: "super_get_queryset example_queryset_env ((empty_view ())\<lparr>queryset := Some [''id'']\<rparr>)
       = Inr [''id'']"
    by (simp add: example_defs)
  note fallback = get_queryset_fallback
    [where guarded = SingleObjectDeleteView and env = example_queryset_env
       and request = "request_of ''GET'' []" and s = "empty_view ()"
       and m = "''missing queryset''" and source = "[''pk'']"
       and q = "[''pk'']" and s' = "(empty_view ())\<lparr>queryset := Some [''pk'']\<rparr>"]
  note direct = get_queryset_fallback
    [where guarded = SingleObjectDetailView and env = example_queryset_env
       and request = "request_of ''GET'' []"
       and s = "(empty_view ())\<lparr>queryset := Some [''id'']\<rparr>" and q = "[''id'']"]
  note sorted = get_queryset_fallback
    [where env = example_queryset_env
       and request = "request_of ''GET'' [(''_sort_field'', [''label''])]" and s = "empty_view ()"
       and m = "''missing queryset''" and source = "[''pk'']"
       and q = "[''pk'']" and s' = "(empty_view ())\<lparr>queryset := Some [''pk'']\<rparr>"
       and f = "''label''"]
  have params:
    "TEXT_SORT_FIELD_PARAMETER example_queryset_env = ''_sort_field''"
    "TEXT_SORT_ORDER_PARAMETER example_queryset_env = ''_sort_order''"
    "order_by example_queryset_env = example_order_by"
    by (simp_all add: example_queryset_env_def)
  have ordered: "example_order_by ''-label'' [''pk''] = Inr [''-label'']"
    by (simp add: example_order_by_def name_chars_def)
  show ?thesis
    using raised source again found fallback direct sorted
    by (simp add: params ordered request_of_def querydict_get_def)
qed

text \<open>
  The list view on a request with a sort field and no sort order: the queryset it
  returns is the looked-up one ordered by \<open>-label\<close>, not the looked-up one.
\<close>

theorem get_queryset_list_view_counterexample:
  "super_get_queryset example_queryset_env (empty_view ())
     = Inl (ImproperlyConfigured ''missing queryset'')
   \<and> get_source_queryset example_queryset_env (empty_view ()) = Inr [''pk'']
   \<and> super_get_queryset example_queryset_env ((empty_view ())\<lparr>queryset := Some [''pk'']\<rparr>)
       = Inr [''pk'']
   \<and> fst (get_queryset SingleObjectListView example_queryset_env
             (request_of ''GET'' [(''_sort_field'', [''label''])]) (empty_view ()))
       = Inr [''-label'']
   \<and> fst (get_queryset SingleObjectListView example_queryset_env
             (request_of ''GET'' [(''_sort_field'', [''label''])]) (empty_view ()))
       \<noteq> super_get_queryset example_queryset_env ((empty_view ())\<lparr>queryset := Some [''pk'']\<rparr>)"
  by (simp add: list_get_queryset_def bnd_def lookup_queryset_cases sort_queryset_result
        example_defs querydict_get_def)

subsection \<open>The guard of \<open>__init__\<close>\<close>

lemma lookup_mro_append:
  "lookup_mro (before @ rest) name =
     (case lookup_mro before name of Some f \<Rightarrow> Some f | None \<Rightarrow> lookup_mro rest name)"
  by (induction before) (auto split: option.splits)

text \<open>
  For a subclass, whose resolution order has the guarded class in it: the guard raises
  exactly when a class that precedes the guarded class defines \<open>get_queryset\<close> as another
  function than the guarded class's own.
\<close>

lemma view_init_override:
  assumes "super_init s = (Inr (), s')"
    and "mro self_class = before @ body guarded # rest"
    and "class_dict (body guarded) ''get_queryset'' = Some base"
  shows "(\<exists>msg. view_init guarded self_class super_init s = (Inl (ImproperlyConfigured msg), s'))
          \<longleftrightarrow> (\<exists>own. lookup_mro before ''get_queryset'' = Some own \<and> own \<noteq> base)"
  using assms
  by (auto simp: view_init_def class_getattr_def stmt_defs lookup_mro_append mro_def[of guarded]
           split: option.splits)

text \<open>
  C8: when the \<open>__init__\<close> of the next class returns, the \<open>__init__\<close> of a guarded view
  raises \<open>ImproperlyConfigured\<close> if and only if \<open>get_queryset\<close> looked up on the class of
  the instance is another function than \<open>get_queryset\<close> looked up on the guarded class.
  The message names the class of the instance; when the two lookups agree the instance
  is built. The guarded class is a parameter: the \<open>__init__\<close> of the seven guarded views
  differ in its name only.
\<close>

theorem view_init_guard:
  assumes "super_init s = (Inr (), s')"
  shows "((\<exists>msg. view_init guarded self_class super_init s = (Inl (ImproperlyConfigured msg), s'))
          \<longleftrightarrow> (\<exists>own base. lookup_mro (mro self_class) ''get_queryset'' = Some own
                 \<and> lookup_mro (mro guarded) ''get_queryset'' = Some base \<and> own \<noteq> base))
       \<and> (\<forall>msg. fst (view_init guarded self_class super_init s) = Inl (ImproperlyConfigured msg)
             \<longrightarrow> msg = overloading_message (class_name (body self_class)))
       \<and> (lookup_mro (mro self_class) ''get_queryset'' = lookup_mro (mro guarded) ''get_queryset''
            \<and> lookup_mro (mro guarded) ''get_queryset'' \<noteq> None
          \<longrightarrow> view_init guarded self_class super_init s = (Inr (), s'))"
  using assms
  by (auto simp: view_init_def class_getattr_def stmt_defs split: option.splits)

theorem view_init_guard_witness:
  "lookup_mro (mro example_overriding_class) ''get_queryset'' = Some ''DocumentListView.get_queryset''
   \<and> lookup_mro (mro example_conforming_class) ''get_queryset''
       = Some ''SingleObjectListView.get_queryset''
   \<and> lookup_mro (mro example_guarded_class) ''get_queryset''
       = Some ''SingleObjectListView.get_queryset''
   \<and> (\<exists>msg. view_init example_guarded_class example_overriding_class (ret ()) ()
              = (Inl (ImproperlyConfigured msg), ()))
   \<and> view_init example_guarded_class example_conforming_class (ret ()) () = (Inr (), ())"
proof -
  have returns: "(ret () :: (unit, unit) stmt) () = (Inr (), ())"
    by (simp add: ret_def)
  have overriding: "lookup_mro (mro example_overriding_class) ''get_queryset''
      = Some ''DocumentListView.get_queryset''"
    by (simp add: example_overriding_class_def mro_def)
  have conforming: "lookup_mro (mro example_conforming_class) ''get_queryset''
      = Some ''SingleObjectListView.get_queryset''"
    by (simp add: example_conforming_class_def example_guarded_class_def mro_def)
  have guarded: "lookup_mro (mro example_guarded_class) ''get_queryset''
      = Some ''SingleObjectListView.get_queryset''"
    by (simp add: example_guarded_class_def mro_def)
  show ?thesis
    using overriding conforming guarded
      view_init_guard [of "ret ()" "()" "()" example_guarded_class example_overriding_class,
        OF returns]
      view_init_guard [of "ret ()" "()" "()" example_guarded_class example_conforming_class,
        OF returns]
    by simp
qed

subsection \<open>Messages of the object views\<close>










subsection \<open>MultiFormView: dispatch and per-form handlers\<close>

lemma all_valid_iff:
  "list_all (\<lambda>valid. valid) (map (\<lambda>(name, form). is_valid env form) forms)
     \<longleftrightarrow> (\<forall>form \<in> snd ` set forms. is_valid env form)"
  by (induction forms) auto

lemma get_forms_bound:
  "request_method request = ''POST'' \<Longrightarrow>
   get_forms env request (get_form_classes env)
     = map (\<lambda>(name, klass).
          (name,
           let kwargs = \<lparr>kw_initial = get_initial env name, kw_prefix = get_prefix env name,
                          kw_data = Some (POST request), kw_files = Some (FILES request)\<rparr>
           in case create_form_methods env (''create_'' @ name @ ''_form'') of
                Some create \<Rightarrow> create kwargs
              | None \<Rightarrow> instantiate env klass kwargs)) (form_classes env)"
  by (simp add: get_forms_def get_form_classes_def create_form_def get_form_kwargs_def Let_def)

text \<open>
  C5: on a POST request, \<open>post\<close> builds one form for each entry of \<open>form_classes\<close>, each from
  keyword arguments that carry the request's data and files (a bound form). If every
  form validates, \<open>post\<close> is \<open>forms_valid\<close> on these forms; if one does not, it is
  \<open>forms_invalid\<close> on them, which renders the response from the context that holds the
  very same forms.
\<close>

theorem post_dispatch:
  assumes "request_method request = ''POST''"
  shows "get_forms env request (get_form_classes env)
           = map (\<lambda>(name, klass).
                (name,
                 let kwargs = \<lparr>kw_initial = get_initial env name, kw_prefix = get_prefix env name,
                                kw_data = Some (POST request), kw_files = Some (FILES request)\<rparr>
                 in case create_form_methods env (''create_'' @ name @ ''_form'') of
                      Some create \<Rightarrow> create kwargs
                    | None \<Rightarrow> instantiate env klass kwargs)) (form_classes env)
       \<and> ((\<forall>form \<in> snd ` set (get_forms env request (get_form_classes env)). is_valid env form)
           \<longrightarrow> post env request = forms_valid env (get_forms env request (get_form_classes env)))
       \<and> ((\<exists>form \<in> snd ` set (get_forms env request (get_form_classes env)). \<not> is_valid env form)
           \<longrightarrow> post env request
                = forms_invalid env request (get_forms env request (get_form_classes env)))
       \<and> forms_invalid env request forms s =
            (case super_get_context_data env forms s of
               Inl e \<Rightarrow> (Inl e, s)
             | Inr ctx \<Rightarrow> (map_sum id Inherited (render_to_response env ctx s), s))"
proof -
  have valid: "(\<forall>form \<in> snd ` set (get_forms env request (get_form_classes env)). is_valid env form)
           \<longrightarrow> post env request = forms_valid env (get_forms env request (get_form_classes env))"
    by (simp add: post_def Let_def all_valid_iff)
  have invalid: "(\<exists>form \<in> snd ` set (get_forms env request (get_form_classes env)). \<not> is_valid env form)
           \<longrightarrow> post env request
                = forms_invalid env request (get_forms env request (get_form_classes env))"
    by (simp add: post_def Let_def all_valid_iff)
  have rendered: "forms_invalid env request forms s =
            (case super_get_context_data env forms s of
               Inl e \<Rightarrow> (Inl e, s)
             | Inr ctx \<Rightarrow> (map_sum id Inherited (render_to_response env ctx s), s))"
    by (simp add: forms_invalid_def multiform_get_context_data_def stmt_defs split: sum.splits)
  show ?thesis
    using get_forms_bound [OF assms] valid invalid rendered by blast
qed

theorem post_dispatch_witness:
  "request_method (request_of ''POST'' [(''DocumentForm'', [''a'']), (''TagForm'', [''b''])]) = ''POST''
   \<and> post (example_multiform_env example_handlers)
        (request_of ''POST'' [(''DocumentForm'', [''a'']), (''TagForm'', [''b''])])
     = forms_valid (example_multiform_env example_handlers)
         [(''document'', (''DocumentForm'', True)), (''tag'', (''TagForm'', True))]
   \<and> post (example_multiform_env example_handlers)
        (request_of ''POST'' [(''DocumentForm'', [''a''])])
     = forms_invalid (example_multiform_env example_handlers)
         (request_of ''POST'' [(''DocumentForm'', [''a''])])
         [(''document'', (''DocumentForm'', True)), (''tag'', (''TagForm'', False))]
   \<and> forms_invalid (example_multiform_env example_handlers)
         (request_of ''POST'' [(''DocumentForm'', [''a''])])
         [(''document'', (''DocumentForm'', True)), (''tag'', (''TagForm'', False))] 0
     = (Inr (Inherited ''documenttag''), 0)"
proof -
  have is_post: "request_method (request_of ''POST'' params) = ''POST''" for params
    by (simp add: request_of_def)
  note is_post_both = is_post [of "[(''DocumentForm'', [''a'']), (''TagForm'', [''b''])]"]
  note is_post_one = is_post [of "[(''DocumentForm'', [''a''])]"]
  note both = post_dispatch [OF is_post_both,
      where env = "example_multiform_env example_handlers"]
  note one = post_dispatch [OF is_post_one,
      where env = "example_multiform_env example_handlers"
        and forms = "[(''document'', (''DocumentForm'', True)), (''tag'', (''TagForm'', False))]"
        and s = 0]
  show ?thesis
    using is_post both one
    by (simp add: example_multiform_env_def request_of_def get_form_classes_def)
qed

lemma first_form_valid_none:
  "(\<forall>name \<in> fst ` set forms. form_valid_methods env (name @ ''_form_valid'') = None)
     \<Longrightarrow> first_form_valid env forms = None"
  by (induction forms) auto

lemma first_form_valid_first:
  "(\<forall>name \<in> fst ` set before. form_valid_methods env (name @ ''_form_valid'') = None)
     \<Longrightarrow> form_valid_methods env (form_name @ ''_form_valid'') = Some handler
     \<Longrightarrow> first_form_valid env (before @ (form_name, form) # after) = Some (handler form)"
  by (induction before) auto

text \<open>
  C9: if the view has a \<open><name>_form_valid\<close> method for the name of some form, then
  \<open>forms_valid\<close> is the call of that method for the first such form in the order of the
  dictionary, and nothing else: no other handler runs and \<open>all_forms_valid\<close> does not.
  If no form has such a method, \<open>forms_valid\<close> calls \<open>all_forms_valid\<close> and redirects to
  the success URL.
\<close>

theorem forms_valid_first_handler:
  "((\<forall>name \<in> fst ` set before. form_valid_methods env (name @ ''_form_valid'') = None)
      \<and> form_valid_methods env (form_name @ ''_form_valid'') = Some handler
     \<longrightarrow> forms_valid env (before @ (form_name, form) # after) = handler form)
   \<and> ((\<forall>name \<in> fst ` set forms. form_valid_methods env (name @ ''_form_valid'') = None)
        \<and> all_forms_valid env = Some all_valid
        \<and> all_valid forms s = (Inr (), s') \<and> view_get_success_url env s' = Inr url
     \<longrightarrow> forms_valid env forms s = (Inr (HttpResponseRedirect url), s'))
   \<and> ((\<exists>name \<in> fst ` set forms. form_valid_methods env (name @ ''_form_valid'') \<noteq> None)
     \<longrightarrow> (\<exists>name form handler. (name, form) \<in> set forms
            \<and> form_valid_methods env (name @ ''_form_valid'') = Some handler
            \<and> forms_valid env forms = handler form))"
proof (intro conjI impI)
  assume "(\<forall>name \<in> fst ` set before. form_valid_methods env (name @ ''_form_valid'') = None)
      \<and> form_valid_methods env (form_name @ ''_form_valid'') = Some handler"
  then show "forms_valid env (before @ (form_name, form) # after) = handler form"
    by (simp add: forms_valid_def first_form_valid_first)
next
  assume "(\<forall>name \<in> fst ` set forms. form_valid_methods env (name @ ''_form_valid'') = None)
        \<and> all_forms_valid env = Some all_valid
        \<and> all_valid forms s = (Inr (), s') \<and> view_get_success_url env s' = Inr url"
  then show "forms_valid env forms s = (Inr (HttpResponseRedirect url), s')"
    by (simp add: forms_valid_def first_form_valid_none stmt_defs)
next
  assume "\<exists>name \<in> fst ` set forms. form_valid_methods env (name @ ''_form_valid'') \<noteq> None"
  then have "\<exists>item \<in> set forms. form_valid_methods env (fst item @ ''_form_valid'') \<noteq> None"
    by auto
  then obtain before item after where split: "forms = before @ item # after"
      and has: "form_valid_methods env (fst item @ ''_form_valid'') \<noteq> None"
      and none: "\<forall>other \<in> set before. \<not> form_valid_methods env (fst other @ ''_form_valid'') \<noteq> None"
    using split_list_first_prop
      [of forms "\<lambda>item. form_valid_methods env (fst item @ ''_form_valid'') \<noteq> None"]
    by blast
  from has obtain handler
    where handler: "form_valid_methods env (fst item @ ''_form_valid'') = Some handler"
    by auto
  have "first_form_valid env (before @ (fst item, snd item) # after) = Some (handler (snd item))"
    using none handler by (intro first_form_valid_first) auto
  then have "forms_valid env forms = handler (snd item)"
    using split by (simp add: forms_valid_def)
  moreover have "(fst item, snd item) \<in> set forms"
    using split by simp
  ultimately show "\<exists>name form handler. (name, form) \<in> set forms
            \<and> form_valid_methods env (name @ ''_form_valid'') = Some handler
            \<and> forms_valid env forms = handler form"
    using handler by blast
qed

theorem forms_valid_first_handler_witness:
  "forms_valid (example_multiform_env example_handlers)
     [(''document'', (''DocumentForm'', True)), (''tag'', (''TagForm'', True))] 0
     = (Inr (Inherited ''TagForm''), 1)
   \<and> forms_valid (example_multiform_env Map.empty)
     [(''document'', (''DocumentForm'', True)), (''tag'', (''TagForm'', True))] 0
     = (Inr (HttpResponseRedirect ''/done/''), 10)"
proof -
  note handled = forms_valid_first_handler
    [where env = "example_multiform_env example_handlers"
       and before = "[(''document'', (''DocumentForm'', True))]"
       and form_name = "''tag''" and form = "(''TagForm'', True)" and after = "[]"
       and handler = "\<lambda>form. bnd (modify Suc) (\<lambda>_. ret (Inherited (fst form)))"]
  note unhandled = forms_valid_first_handler
    [where env = "example_multiform_env Map.empty"
       and forms = "[(''document'', (''DocumentForm'', True)), (''tag'', (''TagForm'', True))]"
       and all_valid = "\<lambda>forms. modify (\<lambda>n. n + 10)"
       and s = 0 and s' = 10 and url = "''/done/''"]
  have first: "forms_valid (example_multiform_env example_handlers)
     [(''document'', (''DocumentForm'', True)), (''tag'', (''TagForm'', True))]
     = bnd (modify Suc) (\<lambda>_. ret (Inherited ''TagForm''))"
    using handled by (simp add: example_multiform_env_def example_handlers_def)
  have none: "forms_valid (example_multiform_env Map.empty)
     [(''document'', (''DocumentForm'', True)), (''tag'', (''TagForm'', True))] 0
     = (Inr (HttpResponseRedirect ''/done/''), 10)"
    using unhandled by (simp add: example_multiform_env_def modify_def)
  show ?thesis
    using none by (simp add: first stmt_defs)
qed

subsection \<open>AssignRemoveView: one failing selection\<close>

lemma bnd_assoc: "bnd (bnd m f) g = bnd m (\<lambda>x. bnd (f x) g)"
  by (auto simp: bnd_def fun_eq_iff split: prod.splits sum.splits)

lemma bnd_ret: "bnd (ret x) f = f x"
  by (simp add: bnd_def ret_def)

lemma transfer_append:
  "transfer env items_function action_function (xs @ ys)
     = bnd (transfer env items_function action_function xs)
         (\<lambda>_. transfer env items_function action_function ys)"
proof (induction xs)
  case Nil
  show ?case by (simp add: bnd_ret)
next
  case (Cons x xs)
  show ?case
    by (simp add: Cons.IH bnd_assoc case_prod_unfold)
qed

lemma resolve_selection_state:
  "resolve_selection env items_function selection s = (r, s') \<Longrightarrow> s' = s"
  by (auto simp: resolve_selection_def stmt_defs split: sum.splits if_splits list.splits)

lemma unable_to_transfer_text:
  "unable_to_transfer (Label l) = Inr (Format1 ''Unable to transfer selection: %s.'' (Text l))"
  by (simp add: unable_to_transfer_def)

text \<open>
  With \<open>DEBUG\<close> off and labels that are texts, the loop over the selections raises only
  what the lookup of a label or of an object raises: where these succeed it runs to its
  end, whatever the action function does.
\<close>

lemma transfer_never_raises:
  assumes "\<not> DEBUG env"
    and "\<forall>s. \<forall>selection \<in> set selections.
           \<exists>l ob. fst (resolve_selection env items_function selection s) = Inr (Label l, ob)"
  shows "fst (transfer env items_function action_function selections s) = Inr ()"
  using assms(2)
proof (induction selections arbitrary: s)
  case Nil
  show ?case by (simp add: ret_def)
next
  case (Cons x xs)
  from Cons.prems obtain l ob
    where v: "fst (resolve_selection env items_function x s) = Inr (Label l, ob)"
    by (meson list.set_intros(1))
  then have r: "resolve_selection env items_function x s = (Inr (Label l, ob), s)"
    by (metis resolve_selection_state prod.collapse)
  have ih: "fst (transfer env items_function action_function xs t) = Inr ()" for t
    using Cons by auto
  show ?case
    using assms(1) r ih
    by (auto simp: stmt_defs unable_to_transfer_text split: prod.splits sum.splits)
qed

text \<open>
  C10 as the code has it: in a submitted, valid form whose selections are
  \<open>before @ selection # after\<close>, let the selections \<open>before\<close> be processed, let \<open>label\<close> be
  what \<open>dict(flat_list)[selection]\<close> gives, and let the action function raise \<open>e\<close> on the
  selection. With \<open>DEBUG\<close> off the exception is caught and the message is made from
  \<open>label\<close>. If that succeeds, as it always does for a label that is a text, the message
  is added to the flashed messages as an error and \<open>process_form\<close> goes on with the
  selections \<open>after\<close>. If it raises (a label that is a tuple of other than one pair), no
  message is added, the selections \<open>after\<close> are not processed and \<open>process_form\<close> raises
  that exception. With \<open>DEBUG\<close> on, \<open>process_form\<close> raises \<open>e\<close>.
\<close>

theorem process_form_continues:
  assumes "POST request (prefix @ ''-submit'') \<noteq> None"
    and "items_function s = Inr items"
    and "ChoiceForm env (POST request) items prefix = Some (before @ selection # after)"
    and "transfer env items_function action_function before s = (Inr (), s1)"
    and "resolve_selection env items_function selection s1 = (Inr (label, selection_obj), s1)"
    and "action_function selection_obj s1 = (Inl e, s2)"
  shows "(\<not> DEBUG env \<and> label = Label l \<longrightarrow>
            process_form env request prefix items_function action_function s
              = transfer env items_function action_function after
                  (s2\<lparr>flashed := flashed s2 @
                     [(ERROR, Format1 ''Unable to transfer selection: %s.'' (Text l))]\<rparr>))
       \<and> (\<not> DEBUG env \<and> unable_to_transfer label = Inr message \<longrightarrow>
            process_form env request prefix items_function action_function s
              = transfer env items_function action_function after
                  (s2\<lparr>flashed := flashed s2 @ [(ERROR, message)]\<rparr>))
       \<and> (\<not> DEBUG env \<and> unable_to_transfer label = Inl e' \<longrightarrow>
            process_form env request prefix items_function action_function s = (Inl e', s2))
       \<and> (DEBUG env \<longrightarrow>
            process_form env request prefix items_function action_function s = (Inl e, s2))"
  using assms
  by (auto simp: process_form_def transfer_append stmt_defs unable_to_transfer_text)

theorem process_form_continues_witness:
  "process_form (example_assign_env False)
     (request_of ''POST'' [(''left_list-submit'', [[]]), (''left_list-selection'', [''1'', ''2'', ''3''])])
     ''left_list'' example_left_list example_add (empty_view [])
     = (Inr (),
        \<lparr>world = [''1'', ''3''],
         flashed = [(ERROR, Format1 ''Unable to transfer selection: %s.'' (Text ''bob''))],
         queryset = None, field_name = None, object = None\<rparr>)
   \<and> process_form (example_assign_env True)
     (request_of ''POST'' [(''left_list-submit'', [[]]), (''left_list-selection'', [''1'', ''2'', ''3''])])
     ''left_list'' example_left_list example_add (empty_view [])
     = (Inl (Exception ''locked''),
        \<lparr>world = [''1''], flashed = [], queryset = None, field_name = None, object = None\<rparr>)"
proof -
  let ?request = "request_of ''POST''
      [(''left_list-submit'', [[]]), (''left_list-selection'', [''1'', ''2'', ''3''])]"
  let ?items = "Flat [(''1'', ''alice''), (''2'', ''bob''), (''3'', ''carol'')]"
  have submitted: "POST ?request (''left_list'' @ ''-submit'') \<noteq> None"
    by (simp add: request_of_def)
  have listed: "example_left_list (empty_view []) = Inr ?items"
    by (simp add: example_left_list_def)
  have selected: "ChoiceForm (example_assign_env debug) (POST ?request) ?items ''left_list''
      = Some ([''1''] @ ''2'' # [''3''])" for debug
    by (simp add: example_assign_env_def request_of_def)
  have resolved: "resolve_selection (example_assign_env debug) example_left_list key s
      = (case map_of [(''3'', Label ''carol''), (''2'', Label ''bob''), (''1'', Label ''alice'')] key of
           None \<Rightarrow> (Inl (KeyError key), s)
         | Some l \<Rightarrow> (Inr (l, Selection key), s))" for debug key s
    by (simp add: resolve_selection_def example_assign_env_def example_left_list_def flat_list_def
          dict_getitem_def stmt_defs split: option.splits)
  have earlier: "transfer (example_assign_env debug) example_left_list example_add [''1'']
      (empty_view []) = (Inr (), empty_view [''1''])" for debug
    by (simp add: resolved example_add_def empty_view_def stmt_defs)
  have found: "resolve_selection (example_assign_env debug) example_left_list ''2''
      (empty_view [''1'']) = (Inr (Label ''bob'', Selection ''2''), empty_view [''1''])" for debug
    by (simp add: resolved)
  have failed: "example_add (Selection ''2'') (empty_view [''1''])
      = (Inl (Exception ''locked''), empty_view [''1''])"
    by (simp add: example_add_def raise_def)
  have later: "transfer (example_assign_env debug) example_left_list example_add [''3''] t
      = (Inr (), t\<lparr>world := world t @ [''3'']\<rparr>)" for debug t
    by (simp add: resolved example_add_def stmt_defs)
  note quiet = process_form_continues
    [OF submitted listed selected [of False] earlier [of False] found [of False] failed,
     where l = "''bob''"]
  note loud = process_form_continues
    [OF submitted listed selected [of True] earlier [of True] found [of True] failed]
  have off: "\<not> DEBUG (example_assign_env False)" and on: "DEBUG (example_assign_env True)"
    by (simp_all add: example_assign_env_def)
  show ?thesis
    using quiet [unfolded later] loud off on
    by (simp add: empty_view_def)
qed

text \<open>
  Groups that are tuples, read with \<open>grouped\<close> off and \<open>DEBUG\<close> off: the action function
  raises on the first selection, making the message raises \<open>TypeError\<close> in the handler,
  no message is flashed, and the second selection, which the action function accepts,
  is never transferred.
\<close>

theorem process_form_group_label_counterexample:
  "\<not> DEBUG (example_assign_env False)
   \<and> example_add (Selection ''2'') (empty_view []) = (Inl (Exception ''locked''), empty_view [])
   \<and> example_add (Selection ''3'') (empty_view [])
       = (Inr (), \<lparr>world = [''3''], flashed = [], queryset = None, field_name = None,
                   object = None\<rparr>)
   \<and> process_form (example_assign_env False)
        (request_of ''POST'' [(''left_list-submit'', [[]]), (''left_list-selection'', [''2'', ''3''])])
        ''left_list'' example_group_list example_add (empty_view [])
       = (Inl (TypeError ''not all arguments converted during string formatting''),
          \<lparr>world = [], flashed = [], queryset = None, field_name = None, object = None\<rparr>)"
  by (simp add: process_form_def resolve_selection_def flat_list_def dict_getitem_def
        unable_to_transfer_def example_assign_env_def example_group_list_def example_add_def
        request_of_def empty_view_def stmt_defs)

end
